theory Spec2Isabelle
  imports Main "HOL-Library.Word"
begin

section \<open>SmkmStore: offsets of SMKM\_STORE fields recovered by emulation\<close>

text \<open>
  A shallow embedding of \<^verbatim>\<open>SmkmStore.py\<close>. The class derives from \<^verbatim>\<open>Tools\<close>,
  whose methods drive the disassembler and the emulator. Those methods are not part of
  the file: they are the fields of the record \<open>tools\<close>, which stands for \<^verbatim>\<open>self\<close>.
  Python integers are \<open>int\<close>, a byte is an \<open>8 word\<close>, a raised exception is \<open>Inl\<close>.
\<close>

subsection \<open>Data\<close>

type_synonym byte = "8 word"

datatype error = TypeError | StructError | KeyError

text \<open>The arguments the emulator hands to a memory-access hook on every load and store.\<close>

record mem_access =
  accessType :: int
  memAccessAddress :: int
  memAccessSize :: int
  memValue :: int

text \<open>
  What \<^verbatim>\<open>self\<close> offers: the methods of \<^verbatim>\<open>Tools\<close> and of the emulator \<^verbatim>\<open>self.fe\<close>
  that the resolvers call. They are parameters, and are taken to return: an exception of
  their own is not modelled.
  \<^item> \<open>emulateRange\<close> takes the entry address and the initial registers, by name, and
    yields the memory accesses of the run, in order, as the memory hook is called.
  \<^item> \<open>iterate\<close> takes the target addresses and the register writes of the
    pre-emulation callback, each the key into the emulator's register table and the
    value, and yields the registers after the run, which \<^verbatim>\<open>getRegVal\<close> reads by name.
    The target callback \<^verbatim>\<open>self.tHook\<close> belongs to \<^verbatim>\<open>Tools\<close> and is part of the run.
\<close>

record tools =
  is_64bit :: bool
  find_ida_name :: "string \<Rightarrow> int \<times> string"
  locate_call_in_fn :: "string \<Rightarrow> string \<Rightarrow> int \<times> int"
  patgen :: "nat \<Rightarrow> byte list"
  loadBytes :: "byte list \<Rightarrow> int"
  emulateRange :: "int \<Rightarrow> (string \<rightharpoonup> int) \<Rightarrow> mem_access list"
  iterate :: "int list \<Rightarrow> (string \<times> int) list \<Rightarrow> (string \<Rightarrow> int)"

type_synonym resolver = "tools \<Rightarrow> error + int"

subsection \<open>Python library functions\<close>

text \<open>\<^verbatim>\<open>bytes.find(sub)\<close>: the lowest index at which \<open>sub\<close> occurs, or \<open>-1\<close>.\<close>

fun find_from :: "nat \<Rightarrow> 'a list \<Rightarrow> 'a list \<Rightarrow> int" where
  "find_from i [] sub = (if sub = [] then int i else - 1)"
| "find_from i (x # xs) sub =
     (if take (length sub) (x # xs) = sub then int i else find_from (Suc i) xs sub)"

definition py_find :: "'a list \<Rightarrow> 'a list \<Rightarrow> int" where
  "py_find pat sub = find_from 0 pat sub"

text \<open>
  \<^verbatim>\<open>struct.pack\<close> with the formats \<^verbatim>\<open><Q\<close> (8 bytes) and \<^verbatim>\<open><I\<close> (4 bytes), both
  unsigned and little-endian. A value outside the format's range raises
  \<^verbatim>\<open>struct.error\<close>.
\<close>

fun le_bytes :: "nat \<Rightarrow> int \<Rightarrow> byte list" where
  "le_bytes 0 v = []"
| "le_bytes (Suc n) v = word_of_int (v mod 256) # le_bytes n (v div 256)"

definition fmt_size :: "string \<Rightarrow> nat" where
  "fmt_size fmt = (if fmt = ''<Q'' then 8 else 4)"

definition struct_pack :: "string \<Rightarrow> int \<Rightarrow> error + byte list" where
  "struct_pack fmt v =
     (if 0 \<le> v \<and> v < 2 ^ (8 * fmt_size fmt) then Inr (le_bytes (fmt_size fmt) v)
      else Inl StructError)"

subsection \<open>The field resolvers\<close>

definition sks_ststore :: resolver where
  "sks_ststore self = Inr 0"

text \<open>The dictionary \<^verbatim>\<open>mHookData\<close> that the memory hook closes over.\<close>

record hook_data =
  offset :: "int option"
  structAddr :: int

text \<open>Python's truth value of \<^verbatim>\<open>mHookData['offset']\<close>: \<^verbatim>\<open>None\<close> and \<open>0\<close> are false.\<close>

definition truthy :: "int option \<Rightarrow> bool" where
  "truthy v = (case v of None \<Rightarrow> False | Some a \<Rightarrow> a \<noteq> 0)"

definition mHook :: "hook_data \<Rightarrow> mem_access \<Rightarrow> hook_data" where
  "mHook mHookData ev =
     (if truthy (offset mHookData) then mHookData
      else if accessType ev = 16 then mHookData\<lparr>offset := Some (memAccessAddress ev)\<rparr>
      else mHookData)"

definition reg_cx :: "tools \<Rightarrow> string" where
  "reg_cx self = (if is_64bit self then ''rcx'' else ''ecx'')"

definition struct_fmt :: "tools \<Rightarrow> string" where
  "struct_fmt self = (if is_64bit self then ''<Q'' else ''<I'')"

definition sks_compressedregionptrarray :: resolver where
  "sks_compressedregionptrarray self =
     (let (fn_addr, fn_name) = find_ida_name self ''SmStMapVirtualRegion'';
          pat = patgen self 8192;
          lp_smkmstore = loadBytes self pat;
          mHookData = \<lparr>offset = None, structAddr = lp_smkmstore\<rparr>;
          regState = [reg_cx self \<mapsto> lp_smkmstore];
          mHookData = foldl mHook mHookData (emulateRange self fn_addr regState)
      in case offset mHookData of
           None \<Rightarrow> Inl TypeError
         | Some a \<Rightarrow> Inr (a - structAddr mHookData))"

text \<open>
  The pre-emulation callback of \<^verbatim>\<open>sks_storeownerprocess\<close>: one register write, to the
  emulator's register \<^verbatim>\<open>regs["cx"]\<close>.
\<close>

definition pHook :: "int \<Rightarrow> (string \<times> int) list" where
  "pHook addr_smkmstore = [(''cx'', addr_smkmstore)]"

text \<open>
  Modelled from the spec: the register table \<^verbatim>\<open>EmuHelper.regs\<close> of the emulator is not
  under \<^verbatim>\<open>src/\<close>. The spec has register naming follow the detected bitness, and the
  callback logs that it loads \<^verbatim>\<open>ECX\<close>: the key \<^verbatim>\<open>cx\<close> denotes the counter register of
  the emulated mode, \<^verbatim>\<open>rcx\<close> in 64-bit mode and \<^verbatim>\<open>ecx\<close> in 32-bit mode, and the name of
  that register denotes itself.
\<close>

definition EmuHelper_regs :: "tools \<Rightarrow> string \<rightharpoonup> string" where
  "EmuHelper_regs self =
     (if is_64bit self then [''cx'' \<mapsto> ''rcx'', ''rcx'' \<mapsto> ''rcx'']
      else [''cx'' \<mapsto> ''ecx'', ''ecx'' \<mapsto> ''ecx''])"

definition sks_storeownerprocess :: resolver where
  "sks_storeownerprocess self =
     (let (startAddr, endAddr) =
            locate_call_in_fn self ''?SmStDirectRead@?$SMKM_STORE'' ''KiStackAttachProcess'';
          pat = patgen self 8192;
          addr_smkmstore = loadBytes self pat;
          getRegVal = iterate self [endAddr] (pHook addr_smkmstore);
          reg_ecx = getRegVal (reg_cx self)
      in case struct_pack (struct_fmt self) reg_ecx of
           Inl e \<Rightarrow> Inl e
         | Inr needle \<Rightarrow> Inr (py_find pat needle))"

subsection \<open>The dispatch table and the aggregate dump\<close>

type_synonym registry = "string \<rightharpoonup> (string \<rightharpoonup> resolver)"

text \<open>
  Modelled from the spec: the table \<^verbatim>\<open>Tools.Info.arch_fns\<close> and the decorators
  \<^verbatim>\<open>Tools.Info.arch32\<close> and \<^verbatim>\<open>Tools.Info.arch64\<close> are defined in \<^verbatim>\<open>Tools.py\<close>, which is
  missing. The spec has a registry keyed by bitness and field name, and functions tagged
  as valid for 32-bit, for 64-bit, or both. The table starts with the two keys \<^verbatim>\<open>x86\<close>
  and \<^verbatim>\<open>x64\<close>, the ones \<^verbatim>\<open>_dump\<close> uses, and no field.
\<close>

definition arch_fns_empty :: registry where
  "arch_fns_empty = [''x86'' \<mapsto> Map.empty, ''x64'' \<mapsto> Map.empty]"

text \<open>
  Modelled from the spec: a decorator of the missing \<^verbatim>\<open>Tools.Info\<close> enters the function
  it decorates, under the function's name, in the table of its architecture, and hands
  the function on unchanged to the decorator above it.
\<close>

definition tag :: "string \<Rightarrow> registry \<Rightarrow> string \<times> resolver \<Rightarrow> registry" where
  "tag arch fns f =
     fns(arch \<mapsto> (case fns arch of None \<Rightarrow> Map.empty | Some tbl \<Rightarrow> tbl)(fst f \<mapsto> snd f))"

text \<open>
  Modelled from the spec: \<^verbatim>\<open>arch32\<close> of the missing \<^verbatim>\<open>Tools.Info\<close> tags a function as
  valid for 32-bit, \<^verbatim>\<open>arch64\<close> as valid for 64-bit.
\<close>

definition arch32 :: "registry \<Rightarrow> string \<times> resolver \<Rightarrow> registry" where
  "arch32 = tag ''x86''"

definition arch64 :: "registry \<Rightarrow> string \<times> resolver \<Rightarrow> registry" where
  "arch64 = tag ''x64''"

text \<open>
  The class body of \<^verbatim>\<open>SmkmStore\<close>: three decorated definitions, in the order of the
  file. Of the two decorators of a function the lower one, \<^verbatim>\<open>arch64\<close>, runs first.
\<close>

definition SmkmStore_arch_fns :: registry where
  "SmkmStore_arch_fns =
     (let fns = arch_fns_empty;
          fns = arch32 (arch64 fns (''sks_ststore'', sks_ststore))
                  (''sks_ststore'', sks_ststore);
          fns = arch32 (arch64 fns (''sks_compressedregionptrarray'', sks_compressedregionptrarray))
                  (''sks_compressedregionptrarray'', sks_compressedregionptrarray);
          fns = arch32 (arch64 fns (''sks_storeownerprocess'', sks_storeownerprocess))
                  (''sks_storeownerprocess'', sks_storeownerprocess)
      in fns)"

text \<open>\<^verbatim>\<open>self.Info.arch_fns[arch][name](self)\<close>; a missing key raises \<^verbatim>\<open>KeyError\<close>.\<close>

definition call_field :: "registry \<Rightarrow> string \<Rightarrow> string \<Rightarrow> resolver" where
  "call_field arch_fns arch name self =
     (case arch_fns arch of
        None \<Rightarrow> Inl KeyError
      | Some tbl \<Rightarrow> (case tbl name of None \<Rightarrow> Inl KeyError | Some f \<Rightarrow> f self))"

text \<open>
  \<^verbatim>\<open>_dump\<close>. A log line is the label and the integer that \<^verbatim>\<open>{0:#x}\<close> renders. The
  result is the lines logged and how the call ended: an exception of a resolver is not
  caught, so it ends the call.
\<close>

type_synonym log_line = "string \<times> int"

definition dump :: "registry \<Rightarrow> tools \<Rightarrow> log_line list \<times> (error + unit)" where
  "dump arch_fns self =
     (let arch = (if is_64bit self then ''x64'' else ''x86'') in
      case call_field arch_fns arch ''sks_ststore'' self of
        Inl e \<Rightarrow> ([], Inl e)
      | Inr v1 \<Rightarrow>
         (case call_field arch_fns arch ''sks_compressedregionptrarray'' self of
            Inl e \<Rightarrow> ([(''StStore'', v1)], Inl e)
          | Inr v2 \<Rightarrow>
             (case call_field arch_fns arch ''sks_storeownerprocess'' self of
                Inl e \<Rightarrow> ([(''StStore'', v1), (''pCompressedRegionPtrArray'', v2)], Inl e)
              | Inr v3 \<Rightarrow>
                 ([(''StStore'', v1), (''pCompressedRegionPtrArray'', v2),
                   (''StoreOwnerProcess'', v3)], Inr ()))))"

subsection \<open>Notions used in the statements\<close>

text \<open>\<open>sub\<close> occurs in \<open>pat\<close> at index \<open>k\<close>: \<^verbatim>\<open>pat[k:k+len(sub)] == sub\<close>, inside \<open>pat\<close>.\<close>

definition occurs_at :: "'a list \<Rightarrow> 'a list \<Rightarrow> nat \<Rightarrow> bool" where
  "occurs_at pat sub k = (k + length sub \<le> length pat \<and> take (length sub) (drop k pat) = sub)"

text \<open>The unsigned integer that a byte string holds in little-endian order.\<close>

fun le_value :: "byte list \<Rightarrow> int" where
  "le_value [] = 0"
| "le_value (b # bs) = uint b + 256 * le_value bs"

subsection \<open>Example environments\<close>

text \<open>
  Concrete environments on which the theorems below are exercised. The probe generator
  of the examples writes the cyclic text \<^verbatim>\<open>Aa0Aa1Aa2...\<close>; it stands for \<^verbatim>\<open>Tools.patgen\<close>,
  which is a parameter of every theorem.
\<close>

definition example_byte :: "nat \<Rightarrow> byte" where
  "example_byte i =
     (if i mod 3 = 0 then word_of_nat (65 + (i div 3) div 260 mod 26)
      else if i mod 3 = 1 then word_of_nat (97 + (i div 3) div 10 mod 26)
      else word_of_nat (48 + (i div 3) mod 10))"

definition example_patgen :: "nat \<Rightarrow> byte list" where
  "example_patgen n = map example_byte [0..<n]"

definition mem_read :: "int \<Rightarrow> int \<Rightarrow> mem_access" where
  "mem_read a n = \<lparr>accessType = 16, memAccessAddress = a, memAccessSize = n, memValue = 0\<rparr>"

definition mem_write :: "int \<Rightarrow> int \<Rightarrow> int \<Rightarrow> mem_access" where
  "mem_write a n v = \<lparr>accessType = 17, memAccessAddress = a, memAccessSize = n, memValue = v\<rparr>"

definition reg_of :: "(string \<rightharpoonup> int) \<Rightarrow> string \<Rightarrow> int" where
  "reg_of regs r = (case regs r of None \<Rightarrow> 0 | Some v \<Rightarrow> v)"

text \<open>
  An environment with the probe loaded at \<open>0x10000\<close>, the stack pointer at \<open>0x7ffe0000\<close>,
  a routine given by its memory accesses and a call site given by its final registers.
\<close>

definition example_tools ::
  "bool \<Rightarrow> ((string \<rightharpoonup> int) \<Rightarrow> mem_access list) \<Rightarrow> ((string \<times> int) list \<Rightarrow> string \<Rightarrow> int) \<Rightarrow> tools"
where
  "example_tools b routine callsite =
     \<lparr>is_64bit = b,
      find_ida_name = (\<lambda>name. (0x401000, name)),
      locate_call_in_fn = (\<lambda>caller callee. (0x402000, 0x402046)),
      patgen = example_patgen,
      loadBytes = (\<lambda>pat. 0x10000),
      emulateRange = (\<lambda>fn_addr. routine),
      iterate = (\<lambda>targets. callsite)\<rparr>"

text \<open>
  The accesses of \<^verbatim>\<open>SmStMapVirtualRegion\<close> of Windows 10 1809 x86, as the docstring lists
  it: four pushes and two stores to the stack, then \<^verbatim>\<open>mov eax, [edi+1184h]\<close> with
  \<^verbatim>\<open>edi\<close> copied from \<^verbatim>\<open>ecx\<close>, then a later read of the structure.
\<close>

definition SmStMapVirtualRegion_x86 :: "(string \<rightharpoonup> int) \<Rightarrow> mem_access list" where
  "SmStMapVirtualRegion_x86 regs =
     [mem_write 0x7ffdfffc 4 0, mem_write 0x7ffdffc0 4 0, mem_write 0x7ffdffbc 4 0,
      mem_write 0x7ffdffb8 4 (reg_of regs ''ecx''), mem_write 0x7ffdffd0 4 0,
      mem_write 0x7ffdffdc 4 (reg_of regs ''ecx''),
      mem_read (reg_of regs ''ecx'' + 0x1184) 4,
      mem_read (reg_of regs ''ecx'' + 0x20) 4]"

text \<open>The routine \<^verbatim>\<open>mov rax, [rcx+0x118]; ret\<close>.\<close>

definition load_and_ret_x64 :: "(string \<rightharpoonup> int) \<Rightarrow> mem_access list" where
  "load_and_ret_x64 regs = [mem_read (reg_of regs ''rcx'' + 0x118) 8, mem_read 0x7ffe0000 8]"

text \<open>The routine \<^verbatim>\<open>mov eax, [esp+4]; mov eax, [ecx+1184h]; ret\<close>: the stack is read first.\<close>

definition stack_then_field_x86 :: "(string \<rightharpoonup> int) \<Rightarrow> mem_access list" where
  "stack_then_field_x86 regs =
     [mem_read 0x7ffe0004 4, mem_read (reg_of regs ''ecx'' + 0x1184) 4, mem_read 0x7ffe0000 4]"


text \<open>A routine that only stores: \<^verbatim>\<open>push ebp; mov [ecx+8], edx\<close>, stopped before it returns.\<close>

definition stores_only_x86 :: "(string \<rightharpoonup> int) \<Rightarrow> mem_access list" where
  "stores_only_x86 regs = [mem_write 0x7ffdfffc 4 0, mem_write (reg_of regs ''ecx'' + 8) 4 0]"

text \<open>
  Call sites, by the registers they leave. \<open>direct_read_x86\<close> is
  \<^verbatim>\<open>mov ecx, [ebx+1254h]\<close> before the call, \<^verbatim>\<open>ebx\<close> holding the seeded structure
  address: the probe bytes \<^verbatim>\<open>Ga4G\<close> at \<open>0x1254\<close> end up in \<^verbatim>\<open>ecx\<close>.
  \<open>direct_read_x64\<close> is the same load at \<open>0x1848\<close> of eight bytes, \<^verbatim>\<open>Hz2Hz3Hz\<close>.
  \<open>zeroed_x86\<close> clears the register. \<open>sign_extended\<close> leaves the negative value \<open>-1\<close>.
\<close>

definition direct_read_x86 :: "(string \<times> int) list \<Rightarrow> string \<Rightarrow> int" where
  "direct_read_x86 writes r =
     (if (''cx'', 0x10000) \<in> set writes \<and> r = ''ecx'' then 0x47346147 else 0)"

definition direct_read_x64 :: "(string \<times> int) list \<Rightarrow> string \<Rightarrow> int" where
  "direct_read_x64 writes r =
     (if (''cx'', 0x10000) \<in> set writes \<and> r = ''rcx'' then 0x7A48337A48327A48 else 0)"

definition zeroed_x86 :: "(string \<times> int) list \<Rightarrow> string \<Rightarrow> int" where
  "zeroed_x86 writes r = 0"

definition sign_extended :: "(string \<times> int) list \<Rightarrow> string \<Rightarrow> int" where
  "sign_extended writes r = - 1"

text \<open>
  A dispatch table whose two sets differ: the resolvers of \<^verbatim>\<open>x86\<close> return the offsets
  of the 32-bit layout, those of \<^verbatim>\<open>x64\<close> the offsets of the 64-bit layout.
\<close>

definition example_arch_fns :: registry where
  "example_arch_fns =
     [''x86'' \<mapsto> [''sks_ststore'' \<mapsto> (\<lambda>self. Inr 0),
                 ''sks_compressedregionptrarray'' \<mapsto> (\<lambda>self. Inr 0x1184),
                 ''sks_storeownerprocess'' \<mapsto> (\<lambda>self. Inr 0x1254)],
      ''x64'' \<mapsto> [''sks_ststore'' \<mapsto> (\<lambda>self. Inr 0),
                 ''sks_compressedregionptrarray'' \<mapsto> (\<lambda>self. Inr 0x1848),
                 ''sks_storeownerprocess'' \<mapsto> (\<lambda>self. Inr 0x19A8)]]"

section \<open>Properties\<close>

subsection \<open>Library lemmas\<close>

lemma occurs_at_Nil: "occurs_at [] sub k = (sub = [] \<and> k = 0)"
  by (auto simp: occurs_at_def)

lemma occurs_at_Cons_0: "occurs_at (x # xs) sub 0 = (take (length sub) (x # xs) = sub)"
  by (auto simp: occurs_at_def) (metis length_take min_def length_Cons nat_le_linear)

lemma occurs_at_Cons_Suc: "occurs_at (x # xs) sub (Suc k) = occurs_at xs sub k"
  by (simp add: occurs_at_def)

lemma find_from_spec:
  "(find_from i xs sub = - 1 \<and> (\<forall>k. \<not> occurs_at xs sub k)) \<or>
   (\<exists>j. find_from i xs sub = int (i + j) \<and> occurs_at xs sub j \<and> (\<forall>m<j. \<not> occurs_at xs sub m))"
proof (induction xs arbitrary: i)
  case Nil
  show ?case by (cases "sub = []") (auto simp: occurs_at_Nil)
next
  case (Cons x xs)
  show ?case
  proof (cases "take (length sub) (x # xs) = sub")
    case True
    then have "find_from i (x # xs) sub = int (i + 0)" "occurs_at (x # xs) sub 0"
      by (simp_all add: occurs_at_Cons_0)
    then show ?thesis by blast
  next
    case False
    then have f: "find_from i (x # xs) sub = find_from (Suc i) xs sub" by simp
    have n0: "\<not> occurs_at (x # xs) sub 0" using False by (simp add: occurs_at_Cons_0)
    from Cons.IH [of "Suc i"] show ?thesis
    proof
      assume a: "find_from (Suc i) xs sub = - 1 \<and> (\<forall>k. \<not> occurs_at xs sub k)"
      have "\<not> occurs_at (x # xs) sub k" for k
        using a n0 by (cases k) (simp_all add: occurs_at_Cons_Suc)
      with a f show ?thesis by simp
    next
      assume "\<exists>j. find_from (Suc i) xs sub = int (Suc i + j) \<and> occurs_at xs sub j \<and>
                (\<forall>m<j. \<not> occurs_at xs sub m)"
      then obtain j where j: "find_from (Suc i) xs sub = int (Suc i + j)" "occurs_at xs sub j"
        "\<forall>m<j. \<not> occurs_at xs sub m" by blast
      have "\<not> occurs_at (x # xs) sub m" if "m < Suc j" for m
        using that j(3) n0 by (cases m) (simp_all add: occurs_at_Cons_Suc)
      moreover have "find_from i (x # xs) sub = int (i + Suc j)" using f j(1) by simp
      moreover have "occurs_at (x # xs) sub (Suc j)" using j(2) by (simp add: occurs_at_Cons_Suc)
      ultimately show ?thesis by blast
    qed
  qed
qed

lemma py_find_cases:
  "(py_find pat sub = - 1 \<and> (\<forall>k. \<not> occurs_at pat sub k)) \<or>
   (\<exists>j. py_find pat sub = int j \<and> occurs_at pat sub j \<and> (\<forall>m<j. \<not> occurs_at pat sub m))"
  using find_from_spec [of 0 pat sub] by (simp add: py_find_def)

lemma length_le_bytes: "length (le_bytes n v) = n"
  by (induction n arbitrary: v) simp_all

lemma le_value_le_bytes: "le_value (le_bytes n v) = v mod 2 ^ (8 * n)"
proof (induction n arbitrary: v)
  case 0
  show ?case by simp
next
  case (Suc n)
  have "uint (word_of_int (v mod 256) :: byte) = v mod 256"
    by (simp add: uint_word_of_int)
  then have "le_value (le_bytes (Suc n) v) = v mod 256 + 256 * (v div 256 mod 2 ^ (8 * n))"
    by (simp add: Suc.IH)
  also have "\<dots> = v mod (256 * 2 ^ (8 * n))"
    using zmod_zmult2_eq [of "2 ^ (8 * n)" v 256] by simp
  finally show ?case by (simp add: power_add)
qed

subsection \<open>The memory hook\<close>

lemma foldl_mHook_truthy: "truthy (offset d) \<Longrightarrow> foldl mHook d evs = d"
  by (induction evs) (simp_all add: mHook_def)

lemma foldl_mHook_no_read:
  "\<forall>e\<in>set evs. accessType e \<noteq> 16 \<Longrightarrow> foldl mHook d evs = d"
  by (induction evs arbitrary: d) (simp_all add: mHook_def)

lemma foldl_mHook_first_read:
  assumes "\<forall>e\<in>set pre. accessType e \<noteq> 16" "accessType ev = 16" "memAccessAddress ev \<noteq> 0"
    "\<not> truthy (offset d)"
  shows "foldl mHook d (pre @ ev # post) = d\<lparr>offset := Some (memAccessAddress ev)\<rparr>"
proof -
  have "foldl mHook d pre = d" using assms by (simp add: foldl_mHook_no_read)
  moreover have "mHook d ev = d\<lparr>offset := Some (memAccessAddress ev)\<rparr>"
    using assms by (simp add: mHook_def)
  moreover have "truthy (offset (d\<lparr>offset := Some (memAccessAddress ev)\<rparr>))"
    using assms by (simp add: truthy_def)
  ultimately show ?thesis by (simp add: foldl_mHook_truthy)
qed

lemma foldl_mHook_structAddr: "structAddr (foldl mHook d evs) = structAddr d"
  by (induction evs arbitrary: d) (simp_all add: mHook_def)



subsection \<open>Byte strings\<close>

lemma le_value_bounds: "0 \<le> le_value bs \<and> le_value bs < 2 ^ (8 * length bs)"
proof (induction bs)
  case Nil
  show ?case by simp
next
  case (Cons b bs)
  have b: "0 \<le> uint b" "uint b < 256"
    using uint_bounded [of b] by simp_all
  from Cons have "256 * le_value bs + 256 \<le> 256 * 2 ^ (8 * length bs)"
    by simp
  with b Cons show ?case
    by (simp add: power_add)
qed

lemma le_bytes_le_value: "le_bytes (length bs) (le_value bs) = bs"
proof (induction bs)
  case Nil
  show ?case by simp
next
  case (Cons b bs)
  have b: "0 \<le> uint b" "uint b < 256"
    using uint_bounded [of b] by simp_all
  then have "(uint b + 256 * le_value bs) mod 256 = uint b"
    "(uint b + 256 * le_value bs) div 256 = le_value bs"
    by simp_all
  with Cons show ?case by simp
qed

lemma occurs_at_hd_in_set: "occurs_at pat (x # sub) k \<Longrightarrow> x \<in> set pat"
proof -
  assume "occurs_at pat (x # sub) k"
  then have "take (Suc (length sub)) (drop k pat) = x # sub" by (simp add: occurs_at_def)
  then have "x \<in> set (take (Suc (length sub)) (drop k pat))" by simp
  then show ?thesis by (meson in_set_dropD in_set_takeD)
qed

lemma occurs_atI:
  "length sub = n \<Longrightarrow> k + n \<le> length pat \<Longrightarrow> take n (drop k pat) = sub \<Longrightarrow> occurs_at pat sub k"
  by (simp add: occurs_at_def)

lemma py_find_absent: "x \<notin> set pat \<Longrightarrow> py_find pat (x # sub) = - 1"
  using py_find_cases [of pat "x # sub"] occurs_at_hd_in_set [of pat x sub] by auto

subsection \<open>The example probe\<close>

lemma byte_of_nat_nonzero: "0 < n \<Longrightarrow> n < 256 \<Longrightarrow> (word_of_nat n :: byte) \<noteq> 0"
  using of_nat_neq_0 [of n, where 'a = 8] by simp

lemma example_byte_nonzero: "example_byte i \<noteq> 0"
proof -
  have a: "(word_of_nat (65 + i div 3 div 260 mod 26) :: byte) \<noteq> 0"
    by (rule byte_of_nat_nonzero) simp_all
  have b: "(word_of_nat (97 + i div 3 div 10 mod 26) :: byte) \<noteq> 0"
    by (rule byte_of_nat_nonzero) simp_all
  have c: "(word_of_nat (48 + i div 3 mod 10) :: byte) \<noteq> 0"
    by (rule byte_of_nat_nonzero) simp_all
  show ?thesis
    unfolding example_byte_def using a b c by presburger
qed

lemma zero_notin_example_patgen: "0 \<notin> set (example_patgen n)"
  by (auto simp: example_patgen_def example_byte_nonzero)

lemma length_example_patgen: "length (example_patgen n) = n"
  by (simp add: example_patgen_def)

lemma example_window:
  "k + m \<le> n \<Longrightarrow> take m (drop k (example_patgen n)) = map example_byte [k..<k + m]"
  by (simp add: example_patgen_def take_map drop_map)

lemma example_window_x86:
  "take 4 (drop 4692 (example_patgen 8192)) = [0x47, 0x61, 0x34, 0x47]"
  using example_window [of 4692 4 8192] by (simp add: upt_rec_numeral example_byte_def)

lemma le_bytes_x86: "le_bytes 4 0x47346147 = [0x47, 0x61, 0x34, 0x47]"
  by code_simp

lemma le_bytes_zero: "le_bytes 4 0 = [0, 0, 0, 0]"
  by code_simp

lemma example_occurs_x86: "occurs_at (example_patgen 8192) [0x47, 0x61, 0x34, 0x47] 4692"
  by (rule occurs_atI [where n = 4]) (simp_all add: length_example_patgen example_window_x86)

lemma example_zero_absent: "\<not> occurs_at (example_patgen 8192) [0, 0, 0, 0] k"
proof
  assume "occurs_at (example_patgen 8192) [0, 0, 0, 0] k"
  then have "0 \<in> set (example_patgen 8192)" by (rule occurs_at_hd_in_set)
  then show False by (simp only: zero_notin_example_patgen)
qed

subsection \<open>The address-interception resolver\<close>

lemma sks_compressedregionptrarray_unfold:
  "sks_compressedregionptrarray self =
     (case offset (foldl mHook \<lparr>offset = None, structAddr = loadBytes self (patgen self 8192)\<rparr>
        (emulateRange self (fst (find_ida_name self ''SmStMapVirtualRegion''))
           [(if is_64bit self then ''rcx'' else ''ecx'') \<mapsto> loadBytes self (patgen self 8192)])) of
        None \<Rightarrow> Inl TypeError
      | Some a \<Rightarrow> Inr (a - loadBytes self (patgen self 8192)))"
  by (simp add: sks_compressedregionptrarray_def Let_def foldl_mHook_structAddr reg_cx_def
      split: prod.splits option.splits)

lemma sks_compressedregionptrarray_no_KeyError:
  "sks_compressedregionptrarray self \<noteq> Inl KeyError"
  by (simp add: sks_compressedregionptrarray_def Let_def split: prod.splits option.splits)

lemmas example_defs = example_tools_def mem_read_def mem_write_def reg_of_def

lemma example_field_first:
  "sks_compressedregionptrarray (example_tools False SmStMapVirtualRegion_x86 callsite) = Inr 0x1184"
  by (simp add: sks_compressedregionptrarray_unfold example_defs SmStMapVirtualRegion_x86_def
      mHook_def truthy_def)

lemma example_stores_only:
  "sks_compressedregionptrarray (example_tools False stores_only_x86 callsite) = Inl TypeError"
  by (simp add: sks_compressedregionptrarray_unfold example_defs stores_only_x86_def
      mHook_def truthy_def)

text \<open>
  C1, as the code has it. The hook records the first read of the run, wherever its
  address lies: the first access of type 16 is recorded and, its address not being 0,
  every later access is ignored. So for a routine run with the probe base in \<^verbatim>\<open>rcx\<close>
  (64-bit) or \<^verbatim>\<open>ecx\<close> (32-bit) whose first read of memory is at probe base + \<open>k\<close>, of
  any size, the resolver returns exactly \<open>k\<close>.
\<close>

theorem first_read_offset:
  fixes self :: tools
  defines "base \<equiv> loadBytes self (patgen self 8192)"
  assumes "emulateRange self (fst (find_ida_name self ''SmStMapVirtualRegion''))
             [(if is_64bit self then ''rcx'' else ''ecx'') \<mapsto> base] = pre @ ev # post"
    and "\<forall>e\<in>set pre. accessType e \<noteq> 16"
    and "accessType ev = 16"
    and "memAccessAddress ev = base + k"
    and "memAccessAddress ev \<noteq> 0"
  shows "sks_compressedregionptrarray self = Inr k"
proof -
  let ?d = "\<lparr>offset = None, structAddr = base\<rparr>"
  have "\<not> truthy (offset ?d)" by (simp add: truthy_def)
  with assms(3,4,6)
  have "foldl mHook ?d (pre @ ev # post) = ?d\<lparr>offset := Some (memAccessAddress ev)\<rparr>"
    by (intro foldl_mHook_first_read) simp_all
  with assms(2,5) show ?thesis
    unfolding base_def by (simp add: sks_compressedregionptrarray_unfold)
qed

theorem first_read_offset_witness:
  "sks_compressedregionptrarray (example_tools False SmStMapVirtualRegion_x86 direct_read_x86)
     = Inr 0x1184 \<and>
   sks_compressedregionptrarray (example_tools True load_and_ret_x64 direct_read_x64)
     = Inr 0x118"
proof
  show "sks_compressedregionptrarray (example_tools False SmStMapVirtualRegion_x86 direct_read_x86)
     = Inr 0x1184"
    using first_read_offset [of "example_tools False SmStMapVirtualRegion_x86 direct_read_x86"
      "[mem_write 0x7ffdfffc 4 0, mem_write 0x7ffdffc0 4 0, mem_write 0x7ffdffbc 4 0,
        mem_write 0x7ffdffb8 4 0x10000, mem_write 0x7ffdffd0 4 0, mem_write 0x7ffdffdc 4 0x10000]"
      "mem_read 0x11184 4" "[mem_read 0x10020 4]" "0x1184"]
    by (simp add: example_defs SmStMapVirtualRegion_x86_def)
  show "sks_compressedregionptrarray (example_tools True load_and_ret_x64 direct_read_x64)
     = Inr 0x118"
    using first_read_offset [of "example_tools True load_and_ret_x64 direct_read_x64"
      "[]" "mem_read 0x10118 8" "[mem_read 0x7ffe0000 8]" "0x118"]
    by (simp add: example_defs load_and_ret_x64_def)
qed

text \<open>
  C1 as stated fails: the hook has no test of the address against the probe's range. The
  routine below reads a stack argument before the field at \<open>0x1184\<close>; the stack address,
  which lies outside the probe, is recorded, and the resolver returns the distance from
  the probe base to the stack, not \<open>0x1184\<close>.
\<close>

theorem stack_read_first_counterexample:
  "emulateRange (example_tools False stack_then_field_x86 direct_read_x86) 0x401000
     [''ecx'' \<mapsto> 0x10000]
     = [mem_read 0x7ffe0004 4, mem_read (0x10000 + 0x1184) 4, mem_read 0x7ffe0000 4] \<and>
   \<not> (0x10000 \<le> (0x7ffe0004 :: int) \<and> (0x7ffe0004 :: int) < 0x10000 + 8192) \<and>
   sks_compressedregionptrarray (example_tools False stack_then_field_x86 direct_read_x86)
     = Inr 0x7ffd0004"
  by (simp add: sks_compressedregionptrarray_unfold example_defs stack_then_field_x86_def
      mHook_def truthy_def)




subsection \<open>The value-correlation resolver\<close>

lemma sks_storeownerprocess_unfold:
  "sks_storeownerprocess self =
     (let v = iterate self
            [snd (locate_call_in_fn self ''?SmStDirectRead@?$SMKM_STORE'' ''KiStackAttachProcess'')]
            [(''cx'', loadBytes self (patgen self 8192))]
            (if is_64bit self then ''rcx'' else ''ecx'');
          w = (if is_64bit self then 8 else 4)
      in if 0 \<le> v \<and> v < 2 ^ (8 * w) then Inr (py_find (patgen self 8192) (le_bytes w v))
         else Inl StructError)"
  by (simp add: sks_storeownerprocess_def Let_def struct_pack_def struct_fmt_def fmt_size_def
      reg_cx_def pHook_def split: prod.splits)

lemma sks_storeownerprocess_no_KeyError: "sks_storeownerprocess self \<noteq> Inl KeyError"
  by (simp add: sks_storeownerprocess_unfold Let_def)

lemma sks_storeownerprocess_needle:
  assumes "length needle = (if is_64bit self then 8 else 4)"
    and "le_value needle = iterate self
            [snd (locate_call_in_fn self ''?SmStDirectRead@?$SMKM_STORE'' ''KiStackAttachProcess'')]
            [(''cx'', loadBytes self (patgen self 8192))]
            (if is_64bit self then ''rcx'' else ''ecx'')"
  shows "sks_storeownerprocess self = Inr (py_find (patgen self 8192) needle)"
proof -
  let ?w = "if is_64bit self then 8 else 4 :: nat"
  have "0 \<le> le_value needle \<and> le_value needle < 2 ^ (8 * ?w)"
    using le_value_bounds [of needle] assms(1) by simp
  moreover have "le_bytes ?w (le_value needle) = needle"
    using le_bytes_le_value [of needle] assms(1) by simp
  ultimately show ?thesis
    unfolding sks_storeownerprocess_unfold Let_def assms(2) [symmetric] by simp
qed

lemma example_direct_read:
  "sks_storeownerprocess (example_tools False routine direct_read_x86)
     = Inr (py_find (example_patgen 8192) [0x47, 0x61, 0x34, 0x47])"
  by (simp add: sks_storeownerprocess_unfold example_tools_def direct_read_x86_def le_bytes_x86)

lemma example_zeroed:
  "sks_storeownerprocess (example_tools False routine zeroed_x86) = Inr (- 1)"
  by (simp add: sks_storeownerprocess_unfold example_tools_def zeroed_x86_def le_bytes_zero
      py_find_absent zero_notin_example_patgen)

lemma example_sign_extended:
  "sks_storeownerprocess (example_tools False routine sign_extended) = Inl StructError"
  by (simp add: sks_storeownerprocess_unfold example_tools_def sign_extended_def)

text \<open>
  C2. The resolver runs the emulator to the end address of the located call with the probe
  base written to the emulator's register \<^verbatim>\<open>cx\<close> by the pre-emulation callback, and
  reads \<open>v\<close>, the final value of \<^verbatim>\<open>rcx\<close> (64-bit) or \<^verbatim>\<open>ecx\<close> (32-bit). Let \<open>needle\<close>
  be \<open>v\<close> as a little-endian byte string of the pointer width, 8 or 4 bytes. Whenever
  \<open>needle\<close> occurs in the probe, the resolver returns the index of a match: the lowest
  index at which \<open>needle\<close> occurs. So when the register holds the probe bytes of some
  index \<open>k\<close> and these occur nowhere else in the probe, the resolver returns \<open>k\<close>.
\<close>

theorem value_correlation:
  fixes self :: tools
  defines "pat \<equiv> patgen self 8192"
    and "v \<equiv> iterate self
          [snd (locate_call_in_fn self ''?SmStDirectRead@?$SMKM_STORE'' ''KiStackAttachProcess'')]
          [(''cx'', loadBytes self (patgen self 8192))]
          (if is_64bit self then ''rcx'' else ''ecx'')"
  assumes "length needle = (if is_64bit self then 8 else 4)"
    and "le_value needle = v"
    and "occurs_at pat needle k"
  shows "(\<exists>j\<le>k. sks_storeownerprocess self = Inr (int j) \<and> occurs_at pat needle j \<and>
           (\<forall>m<j. \<not> occurs_at pat needle m)) \<and>
         ((\<forall>m. occurs_at pat needle m \<longrightarrow> m = k) \<longrightarrow> sks_storeownerprocess self = Inr (int k))"
proof -
  have r: "sks_storeownerprocess self = Inr (py_find pat needle)"
    using assms(3,4) unfolding pat_def v_def by (rule sks_storeownerprocess_needle)
  from py_find_cases [of pat needle] assms(5)
  obtain j where j: "py_find pat needle = int j" "occurs_at pat needle j"
    "\<forall>m<j. \<not> occurs_at pat needle m" by blast
  then have "j \<le> k" using assms(5) by (meson not_le)
  with r j have "\<exists>j\<le>k. sks_storeownerprocess self = Inr (int j) \<and> occurs_at pat needle j \<and>
           (\<forall>m<j. \<not> occurs_at pat needle m)" by auto
  moreover have "sks_storeownerprocess self = Inr (int k)"
    if "\<forall>m. occurs_at pat needle m \<longrightarrow> m = k"
    using that r j by auto
  ultimately show ?thesis by blast
qed

theorem value_correlation_witness:
  "\<exists>j. j \<le> 4692 \<and>
       sks_storeownerprocess (example_tools False SmStMapVirtualRegion_x86 direct_read_x86)
         = Inr (int j) \<and>
       occurs_at (example_patgen 8192) [0x47, 0x61, 0x34, 0x47] j"
proof -
  let ?env = "example_tools False SmStMapVirtualRegion_x86 direct_read_x86"
  have e: "is_64bit ?env = False" "patgen ?env 8192 = example_patgen 8192"
    by (simp_all add: example_tools_def)
  have "length [0x47, 0x61, 0x34, 0x47 :: byte] = (if is_64bit ?env then 8 else 4)"
    by (simp add: e)
  moreover have "le_value [0x47, 0x61, 0x34, 0x47] = iterate ?env
      [snd (locate_call_in_fn ?env ''?SmStDirectRead@?$SMKM_STORE'' ''KiStackAttachProcess'')]
      [(''cx'', loadBytes ?env (patgen ?env 8192))] (if is_64bit ?env then ''rcx'' else ''ecx'')"
    by (simp add: example_tools_def direct_read_x86_def)
  moreover have "occurs_at (patgen ?env 8192) [0x47, 0x61, 0x34, 0x47] 4692"
    unfolding e by (rule example_occurs_x86)
  ultimately show ?thesis
    using value_correlation [of "[0x47, 0x61, 0x34, 0x47]" ?env 4692] unfolding e by blast
qed

text \<open>
  C5, as the code has it. With \<open>needle\<close> the final register value as a little-endian byte
  string of the pointer width: if \<open>needle\<close> occurs nowhere in the probe, the resolver
  returns \<open>-1\<close>, the answer of \<^verbatim>\<open>find\<close>, and raises nothing; every result it returns is
  either \<open>-1\<close> or a non-negative index at which \<open>needle\<close> occurs in the probe.
\<close>

theorem not_found_returns_minus_one:
  fixes self :: tools
  defines "pat \<equiv> patgen self 8192"
    and "v \<equiv> iterate self
          [snd (locate_call_in_fn self ''?SmStDirectRead@?$SMKM_STORE'' ''KiStackAttachProcess'')]
          [(''cx'', loadBytes self (patgen self 8192))]
          (if is_64bit self then ''rcx'' else ''ecx'')"
  assumes "length needle = (if is_64bit self then 8 else 4)"
    and "le_value needle = v"
  shows "((\<forall>k. \<not> occurs_at pat needle k) \<longrightarrow> sks_storeownerprocess self = Inr (- 1)) \<and>
         (\<forall>r. sks_storeownerprocess self = Inr r \<longrightarrow>
              r = - 1 \<or> (0 \<le> r \<and> occurs_at pat needle (nat r)))"
proof -
  have r: "sks_storeownerprocess self = Inr (py_find pat needle)"
    using assms(3,4) unfolding pat_def v_def by (rule sks_storeownerprocess_needle)
  from py_find_cases [of pat needle] show ?thesis
    unfolding r by auto
qed

theorem not_found_returns_minus_one_witness:
  "sks_storeownerprocess (example_tools False SmStMapVirtualRegion_x86 zeroed_x86) = Inr (- 1)"
proof -
  let ?env = "example_tools False SmStMapVirtualRegion_x86 zeroed_x86"
  have e: "is_64bit ?env = False" "patgen ?env 8192 = example_patgen 8192"
    by (simp_all add: example_tools_def)
  have "length [0, 0, 0, 0 :: byte] = (if is_64bit ?env then 8 else 4)"
    by (simp add: e)
  moreover have "le_value [0, 0, 0, 0] = iterate ?env
      [snd (locate_call_in_fn ?env ''?SmStDirectRead@?$SMKM_STORE'' ''KiStackAttachProcess'')]
      [(''cx'', loadBytes ?env (patgen ?env 8192))] (if is_64bit ?env then ''rcx'' else ''ecx'')"
    by (simp add: example_tools_def zeroed_x86_def)
  moreover have "\<forall>k. \<not> occurs_at (patgen ?env 8192) [0, 0, 0, 0] k"
    unfolding e using example_zero_absent by blast
  ultimately show ?thesis
    using not_found_returns_minus_one [of "[0, 0, 0, 0]" ?env] by blast
qed

text \<open>
  C5 as stated fails: when the packed value is not in the probe, nothing is raised. The
  call site below clears the register; the four zero bytes occur nowhere in the probe,
  which holds no zero byte, and the resolver returns \<open>-1\<close>, a negative result.
\<close>

theorem zeroed_register_counterexample:
  "(0 :: byte) \<notin> set (patgen (example_tools False SmStMapVirtualRegion_x86 zeroed_x86) 8192) \<and>
   struct_pack ''<I'' 0 = Inr [0, 0, 0, 0] \<and>
   sks_storeownerprocess (example_tools False SmStMapVirtualRegion_x86 zeroed_x86) = Inr (- 1)"
proof -
  have "patgen (example_tools False SmStMapVirtualRegion_x86 zeroed_x86) 8192
      = example_patgen 8192"
    by (simp add: example_tools_def)
  moreover have "struct_pack ''<I'' 0 = Inr [0, 0, 0, 0]"
    by (simp add: struct_pack_def fmt_size_def le_bytes_zero)
  moreover note zero_notin_example_patgen [of 8192] example_zeroed [of SmStMapVirtualRegion_x86]
  ultimately show ?thesis by simp
qed

text \<open>
  C9. If the final value of the register is negative or does not fit the pointer width
  (at least \<open>2^32\<close> on 32-bit, \<open>2^64\<close> on 64-bit), packing raises \<^verbatim>\<open>struct.error\<close>
  and the resolver returns no offset.
\<close>

theorem out_of_width_raises:
  fixes self :: tools
  defines "v \<equiv> iterate self
          [snd (locate_call_in_fn self ''?SmStDirectRead@?$SMKM_STORE'' ''KiStackAttachProcess'')]
          [(''cx'', loadBytes self (patgen self 8192))]
          (if is_64bit self then ''rcx'' else ''ecx'')"
  assumes "v < 0 \<or> 2 ^ (if is_64bit self then 64 else 32) \<le> v"
  shows "sks_storeownerprocess self = Inl StructError"
  using assms(2) unfolding v_def
  by (auto simp: sks_storeownerprocess_unfold Let_def)

theorem out_of_width_raises_witness:
  "sks_storeownerprocess (example_tools False SmStMapVirtualRegion_x86 sign_extended)
     = Inl StructError \<and>
   sks_storeownerprocess (example_tools True load_and_ret_x64 (\<lambda>writes r. 2 ^ 64))
     = Inl StructError"
  using out_of_width_raises [of "example_tools False SmStMapVirtualRegion_x86 sign_extended"]
    out_of_width_raises [of "example_tools True load_and_ret_x64 (\<lambda>writes r. 2 ^ 64)"]
  by (simp add: example_tools_def sign_extended_def)

subsection \<open>The structure anchor\<close>

text \<open>
  C8. \<^verbatim>\<open>sks_ststore\<close> returns 0 whatever the environment is: on either architecture,
  and whatever the disassembler, the probe generator and the emulator would answer,
  since it consults none of them.
\<close>

theorem sks_ststore_zero: "sks_ststore self = Inr 0"
  by (simp add: sks_ststore_def)

subsection \<open>Registration and dispatch\<close>

lemma SmkmStore_arch_fns_x86:
  "SmkmStore_arch_fns ''x86'' =
     Some [''sks_ststore'' \<mapsto> sks_ststore,
           ''sks_compressedregionptrarray'' \<mapsto> sks_compressedregionptrarray,
           ''sks_storeownerprocess'' \<mapsto> sks_storeownerprocess]"
  by (simp add: SmkmStore_arch_fns_def arch_fns_empty_def arch32_def arch64_def tag_def)

lemma SmkmStore_arch_fns_x64:
  "SmkmStore_arch_fns ''x64'' =
     Some [''sks_ststore'' \<mapsto> sks_ststore,
           ''sks_compressedregionptrarray'' \<mapsto> sks_compressedregionptrarray,
           ''sks_storeownerprocess'' \<mapsto> sks_storeownerprocess]"
  by (simp add: SmkmStore_arch_fns_def arch_fns_empty_def arch32_def arch64_def tag_def)

lemma call_field_SmkmStore:
  "call_field SmkmStore_arch_fns (if is_64bit self then ''x64'' else ''x86'') ''sks_ststore'' self
     = sks_ststore self"
  "call_field SmkmStore_arch_fns (if is_64bit self then ''x64'' else ''x86'')
     ''sks_compressedregionptrarray'' self = sks_compressedregionptrarray self"
  "call_field SmkmStore_arch_fns (if is_64bit self then ''x64'' else ''x86'')
     ''sks_storeownerprocess'' self = sks_storeownerprocess self"
  by (simp_all add: call_field_def SmkmStore_arch_fns_x86 SmkmStore_arch_fns_x64)

lemma dump_SmkmStore:
  "dump SmkmStore_arch_fns self =
     (case sks_compressedregionptrarray self of
        Inl e \<Rightarrow> ([(''StStore'', 0)], Inl e)
      | Inr v2 \<Rightarrow>
         (case sks_storeownerprocess self of
            Inl e \<Rightarrow> ([(''StStore'', 0), (''pCompressedRegionPtrArray'', v2)], Inl e)
          | Inr v3 \<Rightarrow>
             ([(''StStore'', 0), (''pCompressedRegionPtrArray'', v2),
               (''StoreOwnerProcess'', v3)], Inr ())))"
  unfolding dump_def Let_def call_field_SmkmStore
  by (simp add: sks_ststore_def)

lemma call_field_selected:
  "call_field (\<lambda>arch. if arch = a then fns arch else None) a name self
     = call_field fns a name self"
  by (simp add: call_field_def)

lemma dump_selected_only:
  "dump fns self =
   dump (\<lambda>arch. if arch = (if is_64bit self then ''x64'' else ''x86'') then fns arch else None) self"
  unfolding dump_def Let_def by (simp only: call_field_selected)

text \<open>
  C10. After the class body has run, the table of \<^verbatim>\<open>x86\<close> and the table of \<^verbatim>\<open>x64\<close> each
  hold the three resolvers under their names. So for either bitness each of the three
  lookups of \<^verbatim>\<open>_dump\<close> finds its resolver, and \<^verbatim>\<open>_dump\<close> never ends in the
  \<^verbatim>\<open>KeyError\<close> of a missing entry.
\<close>

theorem all_fields_registered:
  "SmkmStore_arch_fns ''x86'' =
     Some [''sks_ststore'' \<mapsto> sks_ststore,
           ''sks_compressedregionptrarray'' \<mapsto> sks_compressedregionptrarray,
           ''sks_storeownerprocess'' \<mapsto> sks_storeownerprocess] \<and>
   SmkmStore_arch_fns ''x64'' =
     Some [''sks_ststore'' \<mapsto> sks_ststore,
           ''sks_compressedregionptrarray'' \<mapsto> sks_compressedregionptrarray,
           ''sks_storeownerprocess'' \<mapsto> sks_storeownerprocess] \<and>
   call_field SmkmStore_arch_fns (if is_64bit self then ''x64'' else ''x86'') ''sks_ststore'' self
     = sks_ststore self \<and>
   call_field SmkmStore_arch_fns (if is_64bit self then ''x64'' else ''x86'')
     ''sks_compressedregionptrarray'' self = sks_compressedregionptrarray self \<and>
   call_field SmkmStore_arch_fns (if is_64bit self then ''x64'' else ''x86'')
     ''sks_storeownerprocess'' self = sks_storeownerprocess self \<and>
   snd (dump SmkmStore_arch_fns self) \<noteq> Inl KeyError"
proof -
  have "snd (dump SmkmStore_arch_fns self) \<noteq> Inl KeyError"
    using sks_compressedregionptrarray_no_KeyError [of self]
      sks_storeownerprocess_no_KeyError [of self]
    by (auto simp: dump_SmkmStore split: sum.splits)
  then show ?thesis
    by (simp only: SmkmStore_arch_fns_x86 SmkmStore_arch_fns_x64 call_field_SmkmStore) simp
qed

subsection \<open>The aggregate dump\<close>

text \<open>
  C6, as the code has it, for any dispatch table. \<^verbatim>\<open>_dump\<close> resolves the three fields
  in the order of its statements and logs each result as it is returned. No exception is
  caught: when the lookup or the resolver of a field fails, the dump ends with that
  failure, the lines of the fields before it have been logged, and the fields after it
  are neither resolved nor logged. All three lines are logged only when all three
  resolvers return.
\<close>

theorem dump_stops_at_first_failure:
  fixes self :: tools and fns :: registry
  defines "field \<equiv> (\<lambda>name. call_field fns (if is_64bit self then ''x64'' else ''x86'') name self)"
  shows
  "(field ''sks_ststore'' = Inl e \<longrightarrow> dump fns self = ([], Inl e)) \<and>
   (field ''sks_ststore'' = Inr v1 \<and> field ''sks_compressedregionptrarray'' = Inl e \<longrightarrow>
      dump fns self = ([(''StStore'', v1)], Inl e)) \<and>
   (field ''sks_ststore'' = Inr v1 \<and> field ''sks_compressedregionptrarray'' = Inr v2 \<and>
    field ''sks_storeownerprocess'' = Inl e \<longrightarrow>
      dump fns self = ([(''StStore'', v1), (''pCompressedRegionPtrArray'', v2)], Inl e)) \<and>
   (field ''sks_ststore'' = Inr v1 \<and> field ''sks_compressedregionptrarray'' = Inr v2 \<and>
    field ''sks_storeownerprocess'' = Inr v3 \<longrightarrow>
      dump fns self =
        ([(''StStore'', v1), (''pCompressedRegionPtrArray'', v2), (''StoreOwnerProcess'', v3)],
         Inr ()))"
  unfolding field_def by (simp add: dump_def)

theorem dump_stops_at_first_failure_witness:
  "dump arch_fns_empty (example_tools False stores_only_x86 direct_read_x86)
     = ([], Inl KeyError) \<and>
   dump SmkmStore_arch_fns (example_tools False stores_only_x86 direct_read_x86)
     = ([(''StStore'', 0)], Inl TypeError) \<and>
   dump SmkmStore_arch_fns (example_tools False SmStMapVirtualRegion_x86 sign_extended)
     = ([(''StStore'', 0), (''pCompressedRegionPtrArray'', 0x1184)], Inl StructError) \<and>
   dump SmkmStore_arch_fns (example_tools False SmStMapVirtualRegion_x86 zeroed_x86)
     = ([(''StStore'', 0), (''pCompressedRegionPtrArray'', 0x1184), (''StoreOwnerProcess'', - 1)],
        Inr ())"
proof -
  let ?a = "example_tools False stores_only_x86 direct_read_x86"
  let ?b = "example_tools False SmStMapVirtualRegion_x86 sign_extended"
  let ?c = "example_tools False SmStMapVirtualRegion_x86 zeroed_x86"
  have x86: "is_64bit ?a = False" "is_64bit ?b = False" "is_64bit ?c = False"
    by (simp_all add: example_tools_def)
  have "call_field arch_fns_empty ''x86'' ''sks_ststore'' ?a = Inl KeyError"
    by (simp add: call_field_def arch_fns_empty_def)
  then have "dump arch_fns_empty ?a = ([], Inl KeyError)"
    using dump_stops_at_first_failure [of arch_fns_empty ?a KeyError] by (simp add: x86)
  moreover have "dump SmkmStore_arch_fns ?a = ([(''StStore'', 0)], Inl TypeError)"
    using dump_stops_at_first_failure [of SmkmStore_arch_fns ?a TypeError 0]
      call_field_SmkmStore [of ?a]
    by (simp add: x86 sks_ststore_def example_stores_only)
  moreover have "dump SmkmStore_arch_fns ?b
      = ([(''StStore'', 0), (''pCompressedRegionPtrArray'', 0x1184)], Inl StructError)"
    using dump_stops_at_first_failure [of SmkmStore_arch_fns ?b StructError 0 "0x1184"]
      call_field_SmkmStore [of ?b]
    by (simp add: x86 sks_ststore_def example_field_first example_sign_extended)
  moreover have "dump SmkmStore_arch_fns ?c
      = ([(''StStore'', 0), (''pCompressedRegionPtrArray'', 0x1184), (''StoreOwnerProcess'', - 1)],
         Inr ())"
    using dump_stops_at_first_failure [of SmkmStore_arch_fns ?c StructError 0 "0x1184" "- 1"]
      call_field_SmkmStore [of ?c]
    by (simp add: x86 sks_ststore_def example_field_first example_zeroed)
  ultimately show ?thesis by blast
qed

text \<open>
  C6 as stated fails: a failing field is not isolated from the others. In the environment
  below the routine of the second field performs no read, so its resolver raises
  \<^verbatim>\<open>TypeError\<close>. The dump ends there with one line logged; the third field, whose
  resolver would return, is never resolved or logged.
\<close>

theorem dump_aborts_counterexample:
  "dump SmkmStore_arch_fns (example_tools False stores_only_x86 direct_read_x86)
     = ([(''StStore'', 0)], Inl TypeError) \<and>
   \<not> isl (sks_storeownerprocess (example_tools False stores_only_x86 direct_read_x86))"
  by (simp add: dump_SmkmStore example_stores_only example_direct_read)

subsection \<open>Architecture dispatch\<close>

lemma dump_selected_table:
  assumes "fns (if is_64bit self then ''x64'' else ''x86'') = Some tbl"
    and "tbl ''sks_ststore'' = Some f1"
    and "tbl ''sks_compressedregionptrarray'' = Some f2"
    and "tbl ''sks_storeownerprocess'' = Some f3"
  shows "dump fns self =
     (case f1 self of
        Inl e \<Rightarrow> ([], Inl e)
      | Inr v1 \<Rightarrow>
         (case f2 self of
            Inl e \<Rightarrow> ([(''StStore'', v1)], Inl e)
          | Inr v2 \<Rightarrow>
             (case f3 self of
                Inl e \<Rightarrow> ([(''StStore'', v1), (''pCompressedRegionPtrArray'', v2)], Inl e)
              | Inr v3 \<Rightarrow>
                 ([(''StStore'', v1), (''pCompressedRegionPtrArray'', v2),
                   (''StoreOwnerProcess'', v3)], Inr ()))))"
proof -
  have "call_field fns (if is_64bit self then ''x64'' else ''x86'') ''sks_ststore'' self = f1 self"
    "call_field fns (if is_64bit self then ''x64'' else ''x86'') ''sks_compressedregionptrarray'' self
       = f2 self"
    "call_field fns (if is_64bit self then ''x64'' else ''x86'') ''sks_storeownerprocess'' self
       = f3 self"
    using assms by (simp_all add: call_field_def)
  then show ?thesis
    unfolding dump_def Let_def by (simp only:)
qed

lemma dump_missing_table:
  "fns (if is_64bit self then ''x64'' else ''x86'') = None \<Longrightarrow> dump fns self = ([], Inl KeyError)"
  by (simp add: dump_def call_field_def)

lemma pHook_register:
  "map (\<lambda>(key, v). (EmuHelper_regs self key, v)) (pHook a)
     = [(Some (if is_64bit self then ''rcx'' else ''ecx''), a)]"
  by (simp add: pHook_def EmuHelper_regs_def)

text \<open>
  C7. The architecture enters each resolver through \<^verbatim>\<open>is_64bit\<close> alone, and the same
  way in each. With \<open>cx\<close> the name \<^verbatim>\<open>rcx\<close> when the environment is 64-bit and \<^verbatim>\<open>ecx\<close>
  when it is 32-bit, and \<open>w\<close> the width 8 resp. 4:
  \<^item> \<^verbatim>\<open>sks_compressedregionptrarray\<close> starts the emulator with the probe base in the
    register named \<open>cx\<close>, and in no other;
  \<^item> the one register that the pre-emulation callback of \<^verbatim>\<open>sks_storeownerprocess\<close>
    writes, through the key \<^verbatim>\<open>cx\<close> of the emulator's table, is the register named \<open>cx\<close>,
    and it receives the probe base; the register read after the run is the one named
    \<open>cx\<close>, and its value is packed in \<open>w\<close> bytes, little-endian;
  \<^item> \<^verbatim>\<open>_dump\<close> selects the table of \<^verbatim>\<open>x64\<close> exactly when the environment is 64-bit and
    the table of \<^verbatim>\<open>x86\<close> otherwise: without that table it ends in \<^verbatim>\<open>KeyError\<close> whatever
    the other table holds, with it the outcome is that of the three resolvers of that
    table, and no other table is consulted.
\<close>

theorem arch_dispatch:
  fixes self :: tools and fns :: registry
  defines "pat \<equiv> patgen self 8192"
    and "base \<equiv> loadBytes self (patgen self 8192)"
    and "cx \<equiv> (if is_64bit self then ''rcx'' else ''ecx'')"
    and "w \<equiv> (if is_64bit self then 8 else 4 :: nat)"
    and "arch \<equiv> (if is_64bit self then ''x64'' else ''x86'')"
  shows
  "sks_compressedregionptrarray self =
     (case offset (foldl mHook \<lparr>offset = None, structAddr = base\<rparr>
        (emulateRange self (fst (find_ida_name self ''SmStMapVirtualRegion'')) [cx \<mapsto> base])) of
        None \<Rightarrow> Inl TypeError
      | Some a \<Rightarrow> Inr (a - base)) \<and>
   map (\<lambda>(key, v). (EmuHelper_regs self key, v)) (pHook base) = [(Some cx, base)] \<and>
   sks_storeownerprocess self =
     (let v = iterate self
            [snd (locate_call_in_fn self ''?SmStDirectRead@?$SMKM_STORE'' ''KiStackAttachProcess'')]
            (pHook base) cx
      in if 0 \<le> v \<and> v < 2 ^ (8 * w) then Inr (py_find pat (le_bytes w v))
         else Inl StructError) \<and>
   length (le_bytes w u) = w \<and>
   le_value (le_bytes w u) = u mod 2 ^ (8 * w) \<and>
   (fns arch = None \<longrightarrow> dump fns self = ([], Inl KeyError)) \<and>
   (fns arch = Some tbl \<and> tbl ''sks_ststore'' = Some f1 \<and>
    tbl ''sks_compressedregionptrarray'' = Some f2 \<and> tbl ''sks_storeownerprocess'' = Some f3 \<longrightarrow>
      dump fns self =
        (case f1 self of
           Inl e \<Rightarrow> ([], Inl e)
         | Inr v1 \<Rightarrow>
            (case f2 self of
               Inl e \<Rightarrow> ([(''StStore'', v1)], Inl e)
             | Inr v2 \<Rightarrow>
                (case f3 self of
                   Inl e \<Rightarrow> ([(''StStore'', v1), (''pCompressedRegionPtrArray'', v2)], Inl e)
                 | Inr v3 \<Rightarrow>
                    ([(''StStore'', v1), (''pCompressedRegionPtrArray'', v2),
                      (''StoreOwnerProcess'', v3)], Inr ()))))) \<and>
   dump fns self = dump (\<lambda>a. if a = arch then fns a else None) self"
proof -
  have 1: "sks_compressedregionptrarray self =
     (case offset (foldl mHook \<lparr>offset = None, structAddr = base\<rparr>
        (emulateRange self (fst (find_ida_name self ''SmStMapVirtualRegion'')) [cx \<mapsto> base])) of
        None \<Rightarrow> Inl TypeError
      | Some a \<Rightarrow> Inr (a - base))"
    unfolding base_def cx_def by (rule sks_compressedregionptrarray_unfold)
  have 2: "map (\<lambda>(key, v). (EmuHelper_regs self key, v)) (pHook base) = [(Some cx, base)]"
    unfolding cx_def by (rule pHook_register)
  have 3: "sks_storeownerprocess self =
     (let v = iterate self
            [snd (locate_call_in_fn self ''?SmStDirectRead@?$SMKM_STORE'' ''KiStackAttachProcess'')]
            (pHook base) cx
      in if 0 \<le> v \<and> v < 2 ^ (8 * w) then Inr (py_find pat (le_bytes w v))
         else Inl StructError)"
    unfolding pat_def base_def cx_def w_def pHook_def
    using sks_storeownerprocess_unfold [of self] by (simp only: Let_def)
  have 4: "length (le_bytes w u) = w" "le_value (le_bytes w u) = u mod 2 ^ (8 * w)"
    by (simp_all only: length_le_bytes le_value_le_bytes)
  have 5: "fns arch = None \<longrightarrow> dump fns self = ([], Inl KeyError)"
    unfolding arch_def by (blast intro: dump_missing_table)
  have 6: "fns arch = Some tbl \<and> tbl ''sks_ststore'' = Some f1 \<and>
    tbl ''sks_compressedregionptrarray'' = Some f2 \<and> tbl ''sks_storeownerprocess'' = Some f3 \<longrightarrow>
      dump fns self =
        (case f1 self of
           Inl e \<Rightarrow> ([], Inl e)
         | Inr v1 \<Rightarrow>
            (case f2 self of
               Inl e \<Rightarrow> ([(''StStore'', v1)], Inl e)
             | Inr v2 \<Rightarrow>
                (case f3 self of
                   Inl e \<Rightarrow> ([(''StStore'', v1), (''pCompressedRegionPtrArray'', v2)], Inl e)
                 | Inr v3 \<Rightarrow>
                    ([(''StStore'', v1), (''pCompressedRegionPtrArray'', v2),
                      (''StoreOwnerProcess'', v3)], Inr ()))))"
    unfolding arch_def by (blast intro: dump_selected_table)
  have 7: "dump fns self = dump (\<lambda>a. if a = arch then fns a else None) self"
    unfolding arch_def by (rule dump_selected_only)
  from 1 2 3 4 5 6 7 show ?thesis by blast
qed

theorem arch_dispatch_witness:
  "dump example_arch_fns (example_tools True load_and_ret_x64 direct_read_x64)
     = ([(''StStore'', 0), (''pCompressedRegionPtrArray'', 0x1848),
         (''StoreOwnerProcess'', 0x19A8)], Inr ()) \<and>
   dump example_arch_fns (example_tools False SmStMapVirtualRegion_x86 direct_read_x86)
     = ([(''StStore'', 0), (''pCompressedRegionPtrArray'', 0x1184),
         (''StoreOwnerProcess'', 0x1254)], Inr ()) \<and>
   dump [''x86'' \<mapsto> Map.empty] (example_tools True load_and_ret_x64 direct_read_x64)
     = ([], Inl KeyError) \<and>
   dump [''x64'' \<mapsto> Map.empty] (example_tools False SmStMapVirtualRegion_x86 direct_read_x86)
     = ([], Inl KeyError)"
proof -
  let ?e64 = "example_tools True load_and_ret_x64 direct_read_x64"
  let ?e32 = "example_tools False SmStMapVirtualRegion_x86 direct_read_x86"
  let ?t64 = "[''sks_ststore'' \<mapsto> (\<lambda>self :: tools. Inr 0 :: error + int),
               ''sks_compressedregionptrarray'' \<mapsto> (\<lambda>self. Inr 0x1848),
               ''sks_storeownerprocess'' \<mapsto> (\<lambda>self. Inr 0x19A8)]"
  let ?t32 = "[''sks_ststore'' \<mapsto> (\<lambda>self :: tools. Inr 0 :: error + int),
               ''sks_compressedregionptrarray'' \<mapsto> (\<lambda>self. Inr 0x1184),
               ''sks_storeownerprocess'' \<mapsto> (\<lambda>self. Inr 0x1254)]"
  have b: "is_64bit ?e64 = True" "is_64bit ?e32 = False"
    by (simp_all add: example_tools_def)
  have "dump example_arch_fns ?e64
      = ([(''StStore'', 0), (''pCompressedRegionPtrArray'', 0x1848),
          (''StoreOwnerProcess'', 0x19A8)], Inr ())"
    using arch_dispatch [where self = ?e64 and fns = example_arch_fns and tbl = ?t64
        and ?f1.0 = "\<lambda>self. Inr 0" and ?f2.0 = "\<lambda>self. Inr 0x1848"
        and ?f3.0 = "\<lambda>self. Inr 0x19A8"]
    by (simp add: b example_arch_fns_def)
  moreover have "dump example_arch_fns ?e32
      = ([(''StStore'', 0), (''pCompressedRegionPtrArray'', 0x1184),
          (''StoreOwnerProcess'', 0x1254)], Inr ())"
    using arch_dispatch [where self = ?e32 and fns = example_arch_fns and tbl = ?t32
        and ?f1.0 = "\<lambda>self. Inr 0" and ?f2.0 = "\<lambda>self. Inr 0x1184"
        and ?f3.0 = "\<lambda>self. Inr 0x1254"]
    by (simp add: b example_arch_fns_def)
  moreover have "dump [''x86'' \<mapsto> Map.empty] ?e64 = ([], Inl KeyError)"
    using arch_dispatch [where self = ?e64 and fns = "[''x86'' \<mapsto> Map.empty]"]
    by (simp add: b)
  moreover have "dump [''x64'' \<mapsto> Map.empty] ?e32 = ([], Inl KeyError)"
    using arch_dispatch [where self = ?e32 and fns = "[''x64'' \<mapsto> Map.empty]"]
    by (simp add: b)
  ultimately show ?thesis by blast
qed

end
